theory Spec2Isabelle
  imports Main
begin

section \<open>Time values\<close>

text \<open>
  A JavaScript \<^verbatim>\<open>Date\<close> holds one number, its time value: either a whole number of
  milliseconds since the epoch, of magnitude at most 8.64e15, or \<^verbatim>\<open>NaN\<close> (an invalid
  date). A \<^verbatim>\<open>Date\<close> is an \<^typ>\<open>int option\<close> here, \<open>None\<close> the invalid date; \<open>date\<close>
  is the time value of a valid one, and a clock reading.

  The numbers the code computes with are doubles holding whole numbers. A \<open>number\<close> is
  \<open>Some\<close> such a whole number, or \<open>None\<close> for \<^verbatim>\<open>NaN\<close> and the two infinities, which
  all end in an invalid date. Sums and products are exact up to 2^53 in magnitude and
  rounded to the nearest double beyond.
\<close>

type_synonym date = int

type_synonym jsDate = "int option"

type_synonym number = "int option"

definition msPerDay :: int where
  "msPerDay = 86400000"

definition TimeClip :: "int \<Rightarrow> jsDate" where
  "TimeClip t = (if \<bar>t\<bar> \<le> 8640000000000000 then Some t else None)"

definition newDate :: "number \<Rightarrow> jsDate" where
  \<comment> \<open>\<^verbatim>\<open>new Date(x)\<close> for a number \<open>x\<close>\<close>
  "newDate x = (case x of Some v \<Rightarrow> TimeClip v | None \<Rightarrow> None)"

function bitLength :: "int \<Rightarrow> nat" where
  "bitLength n = (if n \<le> 0 then 0 else Suc (bitLength (n div 2)))"
  by pat_completeness auto
termination
  by (relation "measure nat") auto

declare bitLength.simps [simp del]

definition roundDouble :: "int \<Rightarrow> number" where
  \<comment> \<open>the double nearest to a whole number (ties to the even significand of 53 bits);
      \<open>None\<close> when that is an infinity\<close>
  "roundDouble x =
     (if \<bar>x\<bar> \<le> 9007199254740992 then Some x
      else
        (let q = 2 ^ (bitLength \<bar>x\<bar> - 53);
             n = \<bar>x\<bar> div q;
             r = \<bar>x\<bar> mod q;
             n1 = (if q < 2 * r \<or> (q = 2 * r \<and> odd n) then n + 1 else n)
         in if 2 ^ 1024 \<le> n1 * q then None else Some (sgn x * (n1 * q))))"

definition mulNumber :: "number \<Rightarrow> number \<Rightarrow> number" where
  "mulNumber a b = (case (a, b) of (Some x, Some y) \<Rightarrow> roundDouble (x * y) | _ \<Rightarrow> None)"

definition addNumber :: "number \<Rightarrow> number \<Rightarrow> number" where
  "addNumber a b = (case (a, b) of (Some x, Some y) \<Rightarrow> roundDouble (x + y) | _ \<Rightarrow> None)"

definition IST_OFFSET_MS :: int where
  \<comment> \<open>\<^verbatim>\<open>IST_OFFSET_HOURS * 60 * 60 * 1000\<close> with \<^verbatim>\<open>IST_OFFSET_HOURS = 5.5\<close>\<close>
  "IST_OFFSET_MS = 19800000"

definition toIST :: "jsDate \<Rightarrow> jsDate" where
  \<comment> \<open>\<^verbatim>\<open>getTime()\<close> of an invalid date is \<^verbatim>\<open>NaN\<close>, and so is the sum\<close>
  "toIST utcDate =
     newDate (case utcDate of Some t \<Rightarrow> Some (t + IST_OFFSET_MS) | None \<Rightarrow> None)"

definition fromIST :: "jsDate \<Rightarrow> jsDate" where
  "fromIST istDate =
     newDate (case istDate of Some t \<Rightarrow> Some (t - IST_OFFSET_MS) | None \<Rightarrow> None)"

subsection \<open>The host's time zone\<close>

text \<open>
  The zone of the host: the offset \<^verbatim>\<open>getTimezoneOffset()\<close> reports (minutes, UTC minus
  local time) before the first change, and the changes of offset in the order they
  happen, each with the UTC instant from which it holds. A local time that a change
  repeats or skips is read with the offset before the change.
\<close>

record zone =
  firstOffset :: int
  changes :: "(int \<times> int) list"

fun offsetAt :: "int \<Rightarrow> (int \<times> int) list \<Rightarrow> int \<Rightarrow> int" where
  "offsetAt off [] t = off"
| "offsetAt off ((start, off1) # cs) t = (if t < start then off else offsetAt off1 cs t)"

fun localOffsetAt :: "int \<Rightarrow> (int \<times> int) list \<Rightarrow> int \<Rightarrow> int" where
  "localOffsetAt off [] l = off"
| "localOffsetAt off ((start, off1) # cs) l =
     (if l + off * 60000 < start \<or> l + off1 * 60000 < start then off
      else localOffsetAt off1 cs l)"

definition getTimezoneOffset :: "zone \<Rightarrow> date \<Rightarrow> int" where
  \<comment> \<open>of the valid date with time value \<open>t\<close>\<close>
  "getTimezoneOffset z t = offsetAt (firstOffset z) (changes z) t"

definition localOffset :: "zone \<Rightarrow> int \<Rightarrow> int" where
  "localOffset z l = localOffsetAt (firstOffset z) (changes z) l"

definition LocalTime :: "zone \<Rightarrow> date \<Rightarrow> int" where
  "LocalTime z t = t - getTimezoneOffset z t * 60000"

definition UTC_of :: "zone \<Rightarrow> int \<Rightarrow> int" where
  "UTC_of z l = l + localOffset z l * 60000"

definition Day :: "int \<Rightarrow> int" where
  "Day t = t div msPerDay"

subsection \<open>Local fields of a Date\<close>

definition getDay :: "zone \<Rightarrow> jsDate \<Rightarrow> number" where
  \<comment> \<open>weekday of the local date, 0 = Sunday; the epoch was a Thursday\<close>
  "getDay z d = (case d of Some t \<Rightarrow> Some ((Day (LocalTime z t) + 4) mod 7) | None \<Rightarrow> None)"

definition MakeTime :: "number \<Rightarrow> number \<Rightarrow> number \<Rightarrow> number \<Rightarrow> number" where
  "MakeTime h m s ms =
     addNumber (addNumber (addNumber (mulNumber h (Some 3600000)) (mulNumber m (Some 60000)))
                  (mulNumber s (Some 1000))) ms"

definition MakeDate :: "int \<Rightarrow> number \<Rightarrow> number" where
  "MakeDate day time = addNumber (mulNumber (Some day) (Some msPerDay)) time"

definition setHours :: "zone \<Rightarrow> jsDate \<Rightarrow> number \<Rightarrow> number \<Rightarrow> number \<Rightarrow> number \<Rightarrow> jsDate" where
  \<comment> \<open>\<^verbatim>\<open>d.setHours(h, m, s, ms)\<close>: the local day is kept, the time within it replaced;
      the arguments are whole numbers or \<^verbatim>\<open>NaN\<close>\<close>
  "setHours z d h m s ms =
     (case d of
        None \<Rightarrow> None
      | Some t \<Rightarrow>
          (case MakeDate (Day (LocalTime z t)) (MakeTime h m s ms) of
             None \<Rightarrow> None
           | Some l \<Rightarrow> TimeClip (UTC_of z l)))"

definition addDate :: "zone \<Rightarrow> jsDate \<Rightarrow> int \<Rightarrow> jsDate" where
  \<comment> \<open>\<^verbatim>\<open>d.setDate(d.getDate() + k)\<close> for a small \<open>k\<close>: a day of the month past either end
      of the month carries into the neighbouring months, so the local date moves by \<open>k\<close>
      days and the local time within the day stays\<close>
  "addDate z d k =
     (case d of
        None \<Rightarrow> None
      | Some t \<Rightarrow> TimeClip (UTC_of z (LocalTime z t + k * msPerDay)))"

definition getCurrentIST :: "zone \<Rightarrow> date \<Rightarrow> jsDate" where
  \<comment> \<open>\<open>now\<close> is the reading of the clock, which \<^verbatim>\<open>Date.now()\<close> and \<^verbatim>\<open>new Date()\<close>
      both give\<close>
  "getCurrentIST z now =
     (let nowUTC = newDate (Some (now + getTimezoneOffset z now * 60000)) in toIST nowUTC)"

record bounds =
  startUTC :: jsDate
  endUTC :: jsDate

definition getISTDayBoundsUTC :: "zone \<Rightarrow> date \<Rightarrow> jsDate option \<Rightarrow> bounds" where
  \<comment> \<open>\<open>istDate = None\<close> is the call without an argument; a \<^verbatim>\<open>Date\<close> passed in is used
      even when it is invalid\<close>
  "getISTDayBoundsUTC z now istDate =
     (let currentIST = (case istDate of Some d \<Rightarrow> d | None \<Rightarrow> getCurrentIST z now);
          startOfDayIST = setHours z currentIST (Some 0) (Some 0) (Some 0) (Some 0);
          endOfDayIST = addDate z startOfDayIST 1
      in \<lparr> startUTC = fromIST startOfDayIST, endUTC = fromIST endOfDayIST \<rparr>)"

text \<open>
  Comparing and subtracting dates, as \<^verbatim>\<open><=\<close>, \<^verbatim>\<open><\<close> and \<^verbatim>\<open>-\<close> do on their time
  values: a comparison with an invalid date is false, a difference with one is
  \<^verbatim>\<open>NaN\<close>.
\<close>

definition dateLe :: "jsDate \<Rightarrow> jsDate \<Rightarrow> bool" where
  "dateLe a b = (case (a, b) of (Some x, Some y) \<Rightarrow> x \<le> y | _ \<Rightarrow> False)"

definition dateLt :: "jsDate \<Rightarrow> jsDate \<Rightarrow> bool" where
  "dateLt a b = (case (a, b) of (Some x, Some y) \<Rightarrow> x < y | _ \<Rightarrow> False)"

definition dateDiff :: "jsDate \<Rightarrow> jsDate \<Rightarrow> number" where
  "dateDiff a b = (case (a, b) of (Some x, Some y) \<Rightarrow> Some (x - y) | _ \<Rightarrow> None)"


section \<open>Data model of the scheduler\<close>

text \<open>
  Rows of the two tables the scheduler reads and writes. Timestamps stored as ISO strings
  are time values here; a nullable column is an \<open>option\<close>. The fields of a schedule row
  are typed as the code treats them (\<^verbatim>\<open>schedule: any\<close>): \<open>None\<close> for
  \<^verbatim>\<open>max_posts_per_day\<close> is a missing value, \<open>None\<close> for the two arrays is a value
  that is not an array, and an entry of \<^verbatim>\<open>days_of_week\<close> is a number or a string.
\<close>

datatype jsval = JNum int | JStr string | JNaN

text \<open>
  What the code sends as \<^verbatim>\<open>post_type\<close>: a string, or, for a platform name that is a
  member of \<^verbatim>\<open>Object.prototype\<close>, that inherited member.
\<close>

datatype postType = PostType string | Inherited string

record ScheduleEntry =
  s_id :: string
  s_user_id :: string
  s_platform_name :: string
  max_posts_per_day :: "int option"
  preferred_times :: "string list option"
  days_of_week :: "jsval list option"
  is_active :: bool

record content_post =
  p_id :: string
  p_user_id :: string
  p_platform_name :: string
  post_type :: postType
  p_title :: string
  p_content :: string
  media_url :: "string option"
  status :: string
  scheduled_for :: "date option"
  platform_post_id :: "string option"
  error_message :: "string option"
  posted_at :: "date option"

record GeneratedContent =
  c_title :: string
  c_content :: string
  tags :: "string list option"
  mediaUrl :: "string option"

record PostingJob =
  attempts :: nat
  platform :: string
  content :: GeneratedContent
  scheduledTime :: date
  postId :: string

text \<open>
  A notification as handed to the notification service: its type, title and platform.
  The message text and the timestamp are left out.
\<close>

datatype notification = Notification string string "string option"

text \<open>
  The state: the fields of \<^verbatim>\<open>SchedulerManager\<close>, and what it shares with its
  surroundings. Job objects live in \<open>objects\<close> and \<open>jobs\<close> lists their addresses, since
  the dispatcher mutates a job through one array (\<^verbatim>\<open>dueJobs\<close>) and reads it through
  another (\<^verbatim>\<open>this.jobs\<close>). \<open>intervals\<close> are the interval timers the runtime has
  running, \<open>content_posts\<close> and \<open>posting_schedule\<close> the tables of the store.
\<close>

record state =
  jobs :: "nat list"
  intervalId :: "nat option"
  scheduleWatchInterval :: "nat option"
  isRunning :: bool
  dailyGenerationScheduled :: bool
  processingJobs :: "string set"
  lastProcessTime :: int
  lastScheduleState :: string
  objects :: "nat \<Rightarrow> PostingJob"
  nextObject :: nat
  intervals :: "nat set"
  content_posts :: "content_post list"
  posting_schedule :: "ScheduleEntry list"
  notifications :: "notification list"

text \<open>
  What the host supplies besides the clock: its zone and the two conversions the code
  applies to strings. \<open>toNumber s\<close> is \<^verbatim>\<open>Number(s)\<close> as \<^verbatim>\<open>setHours\<close> reads it
  (truncated to a whole number; \<open>None\<close> when it is \<^verbatim>\<open>NaN\<close> or infinite),
  \<open>parseInt10 s\<close> is \<^verbatim>\<open>parseInt(s, 10)\<close> (\<open>None\<close> is \<^verbatim>\<open>NaN\<close>).
\<close>

record host =
  hostZone :: zone
  toNumber :: "string \<Rightarrow> int option"
  parseInt10 :: "string \<Rightarrow> int option"

section \<open>Operations on the state\<close>

definition notify :: "notification \<Rightarrow> state \<Rightarrow> state" where
  "notify n s = s\<lparr>notifications := notifications s @ [n]\<rparr>"

definition update_post :: "string \<Rightarrow> (content_post \<Rightarrow> content_post) \<Rightarrow> state \<Rightarrow> state" where
  \<comment> \<open>\<^verbatim>\<open>from('content_posts').update(...).eq('id', pid)\<close>; the code never looks at the
      outcome of an update, which is taken to succeed\<close>
  "update_post pid f s =
     s\<lparr>content_posts := map (\<lambda>p. if p_id p = pid then f p else p) (content_posts s)\<rparr>"

definition newObject :: "PostingJob \<Rightarrow> state \<Rightarrow> nat \<times> state" where
  "newObject j s =
     (nextObject s, s\<lparr>objects := (objects s)(nextObject s := j), nextObject := Suc (nextObject s)\<rparr>)"

fun newObjects :: "PostingJob list \<Rightarrow> state \<Rightarrow> nat list \<times> state" where
  "newObjects [] s = ([], s)"
| "newObjects (j # js) s =
     (case newObject j s of (r, s1) \<Rightarrow>
        (case newObjects js s1 of (rs, s2) \<Rightarrow> (r # rs, s2)))"

subsection \<open>stop\<close>

definition stop :: "state \<Rightarrow> state" where
  "stop s =
     (let s1 = (case intervalId s of
                  Some i \<Rightarrow> s\<lparr>intervals := intervals s - {i}, intervalId := None\<rparr>
                | None \<Rightarrow> s);
          s2 = (case scheduleWatchInterval s1 of
                  Some i \<Rightarrow> s1\<lparr>intervals := intervals s1 - {i}, scheduleWatchInterval := None\<rparr>
                | None \<Rightarrow> s1)
      in s2\<lparr>isRunning := False, processingJobs := {}, lastProcessTime := 0,
            lastScheduleState := ''''\<rparr>)"

subsection \<open>getStatus\<close>

record status_report =
  r_isRunning :: bool
  r_scheduledJobs :: nat
  r_processingJobs :: nat
  r_lastProcessTime :: int
  r_nextJob :: "date option"

definition getStatus :: "state \<Rightarrow> status_report \<times> state" where
  \<comment> \<open>\<^verbatim>\<open>this.jobs.sort(...)\<close> sorts the array in place (stably) and returns it\<close>
  "getStatus s =
     (case jobs s of
        [] \<Rightarrow>
          (\<lparr> r_isRunning = isRunning s, r_scheduledJobs = length (jobs s),
              r_processingJobs = card (processingJobs s),
              r_lastProcessTime = lastProcessTime s, r_nextJob = None \<rparr>, s)
      | _ # _ \<Rightarrow>
          (let sorted = sort_key (\<lambda>r. scheduledTime (objects s r)) (jobs s);
               s1 = s\<lparr>jobs := sorted\<rparr>
           in (\<lparr> r_isRunning = isRunning s1, r_scheduledJobs = length (jobs s1),
                  r_processingJobs = card (processingJobs s1),
                  r_lastProcessTime = lastProcessTime s1,
                  r_nextJob = (case sorted of r # _ \<Rightarrow> Some (scheduledTime (objects s1 r))
                               | [] \<Rightarrow> None) \<rparr>, s1)))"

subsection \<open>loadScheduledPosts\<close>

definition jobOfPost :: "content_post \<Rightarrow> PostingJob" where
  "jobOfPost post =
     \<lparr> attempts = 0,
       platform = p_platform_name post,
       content = \<lparr> c_title = p_title post, c_content = p_content post,
                   tags = (if p_platform_name post = ''hashnode'' \<or> p_platform_name post = ''devto''
                           then Some [] else None),
                   mediaUrl = (case media_url post of
                                 Some u \<Rightarrow> if u = [] then None else Some u
                               | None \<Rightarrow> None) \<rparr>,
       scheduledTime = (case scheduled_for post of Some t \<Rightarrow> t | None \<Rightarrow> 0),
       postId = p_id post \<rparr>"

definition scheduledRows :: "string \<Rightarrow> content_post list \<Rightarrow> content_post list" where
  \<comment> \<open>the query: rows of the user with status \<^verbatim>\<open>scheduled\<close> and a \<^verbatim>\<open>scheduled_for\<close>
      that is not null\<close>
  "scheduledRows u rows =
     filter (\<lambda>p. p_user_id p = u \<and> status p = ''scheduled'' \<and> scheduled_for p \<noteq> None) rows"

definition loadScheduledPosts :: "string option \<Rightarrow> bool \<Rightarrow> state \<Rightarrow> state" where
  \<comment> \<open>\<open>user\<close> is the signed-in user, if any; \<open>answered\<close> says whether the query returned
      rows (\<^verbatim>\<open>posts\<close> is not null)\<close>
  "loadScheduledPosts user answered s =
     (case user of
        None \<Rightarrow> s
      | Some u \<Rightarrow>
          if answered then
            (case newObjects (map jobOfPost (scheduledRows u (content_posts s))) s of
               (rs, s1) \<Rightarrow> s1\<lparr>jobs := rs\<rparr>)
          else s)"

subsection \<open>processScheduledPosts\<close>

text \<open>
  What one publish attempt meets: the outcome of the call to the platform (\<open>Inl\<close> the
  message of the error thrown, \<open>Inr\<close> the platform's post id) and the reading of the clock
  once the call is over.
\<close>

record publish_env =
  api_result :: "string + string"
  clock :: int

definition supported :: "string list" where
  "supported = [''hashnode'', ''devto'', ''twitter'', ''linkedin'', ''instagram'', ''youtube'',
     ''reddit'']"

definition postToPlatform :: "PostingJob \<Rightarrow> publish_env \<Rightarrow> string + string" where
  "postToPlatform job pe =
     (if platform job \<in> set supported then api_result pe
      else Inl (''Unsupported platform: '' @ platform job))"

definition processJob :: "publish_env \<Rightarrow> nat \<Rightarrow> state \<Rightarrow> state" where
  "processJob pe r s =
     (let job = objects s r in
      if postId job \<in> processingJobs s then s
      else
        let s1 = s\<lparr>processingJobs := insert (postId job) (processingJobs s)\<rparr>;
            s2 = update_post (postId job) (\<lambda>p. p\<lparr>status := ''posting''\<rparr>) s1;
            s3 =
              (case postToPlatform job pe of
                 Inr pid \<Rightarrow>
                   (let t1 = update_post (postId job)
                               (\<lambda>p. p\<lparr>status := ''published'', platform_post_id := Some pid,
                                       posted_at := Some (clock pe)\<rparr>) s2;
                        t2 = t1\<lparr>jobs := filter (\<lambda>j. postId (objects t1 j) \<noteq> postId job) (jobs t1)\<rparr>
                    in notify (Notification ''success'' ''Post Published'' (Some (platform job))) t2)
               | Inl msg \<Rightarrow>
                   (let job1 = job\<lparr>attempts := attempts job + 1\<rparr>;
                        t1 = s2\<lparr>objects := (objects s2)(r := job1)\<rparr>
                    in if attempts job1 < 3 then
                         (let backoffMs = 2 ^ attempts job1 * 60000;
                              job2 = job1\<lparr>scheduledTime := clock pe + backoffMs\<rparr>;
                              t2 = t1\<lparr>objects := (objects t1)(r := job2)\<rparr>
                          in notify (Notification ''warning'' ''Retry Scheduled'' (Some (platform job))) t2)
                       else
                         (let t2 = update_post (postId job)
                                     (\<lambda>p. p\<lparr>status := ''failed'', error_message := Some msg\<rparr>) t1
                          in notify (Notification ''error'' ''Post Failed'' (Some (platform job))) t2)))
        in s3\<lparr>processingJobs := processingJobs s3 - {postId job}\<rparr>)"

fun processDue :: "(nat \<Rightarrow> publish_env) \<Rightarrow> nat \<Rightarrow> nat list \<Rightarrow> state \<Rightarrow> state" where
  "processDue env i [] s = s"
| "processDue env i (r # rs) s = processDue env (Suc i) rs (processJob (env i) r s)"

definition processScheduledPosts :: "int \<Rightarrow> (nat \<Rightarrow> publish_env) \<Rightarrow> state \<Rightarrow> state" where
  \<comment> \<open>\<open>now\<close> is the clock at the tick (\<^verbatim>\<open>Date.now()\<close> and \<^verbatim>\<open>new Date()\<close>, read one
      after the other); \<open>env i\<close> is what the \<open>i\<close>-th due job meets\<close>
  "processScheduledPosts now env s =
     (if now - lastProcessTime s < 30000 then s
      else
        let s1 = s\<lparr>lastProcessTime := now\<rparr> in
        if jobs s1 = [] then s1
        else
          let dueJobs = filter (\<lambda>r. scheduledTime (objects s1 r) \<le> now
                                     \<and> postId (objects s1 r) \<notin> processingJobs s1) (jobs s1)
          in if dueJobs = [] then s1 else processDue env 0 dueJobs s1)"

subsection \<open>Generating and scheduling content\<close>

definition postTypes :: "(string \<times> string) list" where
  "postTypes = [(''hashnode'', ''blog''), (''devto'', ''blog''), (''twitter'', ''social''),
     (''linkedin'', ''social''), (''instagram'', ''social''), (''youtube'', ''video''),
     (''reddit'', ''social'')]"

definition objectPrototype :: "string list" where
  \<comment> \<open>the names every object inherits from \<^verbatim>\<open>Object.prototype\<close>\<close>
  "objectPrototype = [''constructor'', ''hasOwnProperty'', ''isPrototypeOf'',
     ''propertyIsEnumerable'', ''toLocaleString'', ''toString'', ''valueOf'',
     ''__defineGetter__'', ''__defineSetter__'', ''__lookupGetter__'', ''__lookupSetter__'',
     ''__proto__'']"

definition getPostType :: "string \<Rightarrow> postType" where
  \<comment> \<open>\<^verbatim>\<open>postTypes[platform] || 'social'\<close>: an inherited member is truthy\<close>
  "getPostType p =
     (case map_of postTypes p of
        Some t \<Rightarrow> PostType t
      | None \<Rightarrow> if p \<in> set objectPrototype then Inherited p else PostType ''social'')"

fun split_on :: "char \<Rightarrow> string \<Rightarrow> string list" where
  "split_on c [] = [[]]"
| "split_on c (x # xs) =
     (if x = c then [] # split_on c xs
      else (case split_on c xs of w # ws \<Rightarrow> (x # w) # ws | [] \<Rightarrow> [[x]]))"

definition parseTime :: "(string \<Rightarrow> number) \<Rightarrow> string \<Rightarrow> number \<times> number" where
  \<comment> \<open>\<^verbatim>\<open>const [hours, minutes] = t.split(':').map(Number)\<close>; a part that is missing is
      \<^verbatim>\<open>undefined\<close>, which \<^verbatim>\<open>setHours\<close> reads as \<^verbatim>\<open>NaN\<close>\<close>
  "parseTime num t =
     (case map num (split_on CHR '':'' t) of
        hours # minutes # _ \<Rightarrow> (hours, minutes)
      | [hours] \<Rightarrow> (hours, None)
      | [] \<Rightarrow> (None, None))"

fun findNextDay :: "int \<Rightarrow> jsval list \<Rightarrow> int list \<Rightarrow> int" where
  \<comment> \<open>the loop over \<open>j\<close>; \<^verbatim>\<open>daysToAdd\<close> starts at 1 and keeps it when no day is found\<close>
  "findNextDay currentDayOfWeek daysOfWeek [] = 1"
| "findNextDay currentDayOfWeek daysOfWeek (j # js) =
     (let checkDay = (currentDayOfWeek + j) mod 7 in
      if JNum checkDay \<in> set daysOfWeek then j
      else findNextDay currentDayOfWeek daysOfWeek js)"

definition daysToAdd :: "int \<Rightarrow> jsval list \<Rightarrow> int" where
  "daysToAdd currentDayOfWeek daysOfWeek =
     findNextDay currentDayOfWeek daysOfWeek [1, 2, 3, 4, 5, 6, 7]"

definition scheduledInstant ::
  "zone \<Rightarrow> date \<Rightarrow> jsval list option \<Rightarrow> number \<Rightarrow> number \<Rightarrow> jsDate" where
  \<comment> \<open>\<^verbatim>\<open>scheduledTimeUTC\<close> of a slot at local time \<open>hours:minutes\<close>, the clock reading
      \<open>now\<close>; the weekday is only read of a valid \<^verbatim>\<open>istNow\<close>\<close>
  "scheduledInstant z now days hours minutes =
     (let istNow = getCurrentIST z now;
          scheduledTimeIST = setHours z istNow hours minutes (Some 0) (Some 0);
          scheduledTimeIST1 =
            (if dateLe scheduledTimeIST istNow then
               (let currentDayOfWeek = (case getDay z istNow of Some d \<Rightarrow> d | None \<Rightarrow> 0);
                    daysOfWeek = (case days of Some ds \<Rightarrow> ds | None \<Rightarrow> [])
                in addDate z scheduledTimeIST (daysToAdd currentDayOfWeek daysOfWeek))
             else scheduledTimeIST)
      in fromIST scheduledTimeIST1)"

definition slotInstant :: "host \<Rightarrow> ScheduleEntry \<Rightarrow> string \<Rightarrow> date \<Rightarrow> jsDate" where
  \<comment> \<open>the instant of the slot with preferred time \<open>t\<close>, computed at the clock reading \<open>now\<close>\<close>
  "slotInstant h schedule t now =
     (case parseTime (toNumber h) t of
        (hours, minutes) \<Rightarrow>
          scheduledInstant (hostZone h) now (days_of_week schedule) hours minutes)"

text \<open>
  What one slot meets: the outcome of \<^verbatim>\<open>generateContent\<close> for the topic drawn (\<open>None\<close>
  when it throws), the clock when the slot's time is computed, and the outcome of the
  insert (\<open>Some\<close> the id the store gave the row, \<open>None\<close> an error).
\<close>

record slot_env =
  generated :: "GeneratedContent option"
  slot_now :: int
  inserted :: "string option"

definition scheduleSlot :: "host \<Rightarrow> ScheduleEntry \<Rightarrow> string \<Rightarrow> slot_env \<Rightarrow> state \<Rightarrow> state" where
  \<comment> \<open>the body of the loop over the slots; on an invalid \<^verbatim>\<open>scheduledTimeUTC\<close> the call
      of \<^verbatim>\<open>toISOString\<close> throws, which lands in the same handler as a failed generation\<close>
  "scheduleSlot h schedule t e s =
     (case generated e of
        None \<Rightarrow> notify (Notification ''error'' ''Content Generation Failed'' None) s
      | Some c \<Rightarrow>
          (case slotInstant h schedule t (slot_now e) of
             None \<Rightarrow> notify (Notification ''error'' ''Content Generation Failed'' None) s
           | Some scheduledTimeUTC \<Rightarrow>
               (case inserted e of
                     None \<Rightarrow> s
                   | Some pid \<Rightarrow>
                       (let s1 = s\<lparr>content_posts := content_posts s @
                                   [\<lparr> p_id = pid, p_user_id = s_user_id schedule,
                                      p_platform_name = s_platform_name schedule,
                                      post_type = getPostType (s_platform_name schedule),
                                      p_title = c_title c, p_content = c_content c,
                                      media_url = mediaUrl c, status = ''scheduled'',
                                      scheduled_for = Some scheduledTimeUTC,
                                      platform_post_id = None, error_message = None,
                                      posted_at = None \<rparr>]\<rparr>
                        in case newObject \<lparr> attempts = 0, platform = s_platform_name schedule,
                                            content = c, scheduledTime = scheduledTimeUTC,
                                            postId = pid \<rparr> s1 of
                             (r, s2) \<Rightarrow> s2\<lparr>jobs := jobs s2 @ [r]\<rparr>))))"

function slotLoop ::
  "host \<Rightarrow> ScheduleEntry \<Rightarrow> int \<Rightarrow> string list \<Rightarrow> (nat \<Rightarrow> slot_env) \<Rightarrow> nat \<Rightarrow> state \<Rightarrow> state" where
  "slotLoop h schedule maxPosts preferredTimes env i s =
     (if int i < min maxPosts (int (length preferredTimes))
      then slotLoop h schedule maxPosts preferredTimes env (Suc i)
             (scheduleSlot h schedule (preferredTimes ! i) (env i) s)
      else s)"
  by pat_completeness auto
termination
  by (relation "measure (\<lambda>(h, schedule, maxPosts, preferredTimes, env, i, s).
        length preferredTimes - i)") auto

declare slotLoop.simps [simp del]

definition maxPostsOf :: "ScheduleEntry \<Rightarrow> int" where
  \<comment> \<open>\<^verbatim>\<open>schedule.max_posts_per_day || 3\<close>\<close>
  "maxPostsOf schedule =
     (case max_posts_per_day schedule of
        Some n \<Rightarrow> if n = 0 then 3 else n
      | None \<Rightarrow> 3)"

definition preferredTimesOf :: "ScheduleEntry \<Rightarrow> string list" where
  "preferredTimesOf schedule =
     (case preferred_times schedule of
        Some ts \<Rightarrow> ts
      | None \<Rightarrow> [''09:00'', ''14:00'', ''18:00''])"

definition scheduleContentForPlatform ::
  "host \<Rightarrow> ScheduleEntry \<Rightarrow> (nat \<Rightarrow> slot_env) \<Rightarrow> state \<Rightarrow> state" where
  "scheduleContentForPlatform h schedule env s =
     (let maxPosts = maxPostsOf schedule;
          preferredTimes = preferredTimesOf schedule
      in slotLoop h schedule maxPosts preferredTimes env 0 s)"

definition hasContentForToday :: "host \<Rightarrow> string option \<Rightarrow> int \<Rightarrow> string \<Rightarrow> state \<Rightarrow> bool" where
  \<comment> \<open>on an invalid bound \<^verbatim>\<open>toISOString\<close> throws, and the handler returns false\<close>
  "hasContentForToday h user now platformName s =
     (case user of
        None \<Rightarrow> False
      | Some u \<Rightarrow>
          (let b = getISTDayBoundsUTC (hostZone h) now None in
           case (startUTC b, endUTC b) of
             (Some startT, Some endT) \<Rightarrow>
               (let posts = filter (\<lambda>p. p_user_id p = u \<and> p_platform_name p = platformName
                                 \<and> (status p = ''posted'' \<or> status p = ''published'')
                                 \<and> (case scheduled_for p of
                                       Some t \<Rightarrow> startT \<le> t \<and> t < endT
                                     | None \<Rightarrow> False))
                         (content_posts s)
                in posts \<noteq> [])
           | _ \<Rightarrow> False))"

definition normalizeDay :: "host \<Rightarrow> jsval \<Rightarrow> jsval" where
  \<comment> \<open>\<^verbatim>\<open>typeof d === 'string' ? parseInt(d, 10) : d\<close>\<close>
  "normalizeDay h d =
     (case d of
        JStr x \<Rightarrow> (case parseInt10 h x of Some n \<Rightarrow> JNum n | None \<Rightarrow> JNaN)
      | _ \<Rightarrow> d)"

definition scheduledToday :: "host \<Rightarrow> number \<Rightarrow> ScheduleEntry \<Rightarrow> bool" where
  \<comment> \<open>\<^verbatim>\<open>includes\<close> finds \<^verbatim>\<open>NaN\<close> among the entries when it looks for \<^verbatim>\<open>NaN\<close>\<close>
  "scheduledToday h currentDayOfWeek schedule =
     (let daysRaw = (case days_of_week schedule of Some ds \<Rightarrow> ds | None \<Rightarrow> []);
          daysOfWeek = map (normalizeDay h) daysRaw
      in (case currentDayOfWeek of Some d \<Rightarrow> JNum d | None \<Rightarrow> JNaN) \<in> set daysOfWeek)"

text \<open>
  What the loop over today's schedules meets for one schedule: the clock when the check
  for today's content is made, and what each of its slots meets.
\<close>

record platform_env =
  check_now :: int
  slots :: "nat \<Rightarrow> slot_env"

fun platformLoop ::
  "host \<Rightarrow> string option \<Rightarrow> (nat \<Rightarrow> platform_env) \<Rightarrow> nat \<Rightarrow> ScheduleEntry list \<Rightarrow> state \<Rightarrow> state" where
  "platformLoop h user envs k [] s = s"
| "platformLoop h user envs k (schedule # rest) s =
     platformLoop h user envs (Suc k) rest
       (if hasContentForToday h user (check_now (envs k)) (s_platform_name schedule) s then s
        else scheduleContentForPlatform h schedule (slots (envs k)) s)"

definition todaySchedules :: "host \<Rightarrow> string \<Rightarrow> number \<Rightarrow> state \<Rightarrow> ScheduleEntry list" where
  \<comment> \<open>the active schedules of the user, filtered for the weekday\<close>
  "todaySchedules h u currentDayOfWeek s =
     filter (scheduledToday h currentDayOfWeek)
       (filter (\<lambda>r. s_user_id r = u \<and> is_active r) (posting_schedule s))"

definition generateContentForToday ::
  "host \<Rightarrow> string option \<Rightarrow> int \<Rightarrow> bool \<Rightarrow> (nat \<Rightarrow> platform_env) \<Rightarrow> state \<Rightarrow> state" where
  \<comment> \<open>\<open>user\<close> is the signed-in user, \<open>now\<close> the clock reading, \<open>fetched\<close> whether the query
      for the schedules came back without an error\<close>
  "generateContentForToday h user now fetched envs s =
     (case user of
        None \<Rightarrow> s
      | Some u \<Rightarrow>
          (let istNow = getCurrentIST (hostZone h) now;
               currentDayOfWeek = getDay (hostZone h) istNow
           in if \<not> fetched then s
              else
                let schedules = filter (\<lambda>r. s_user_id r = u \<and> is_active r) (posting_schedule s)
                in if schedules = [] then s
                   else
                     let today = todaySchedules h u currentDayOfWeek s
                     in if today = [] then s
                        else platformLoop h user envs 0 today s))"

definition forceGenerateContent ::
  "host \<Rightarrow> string option \<Rightarrow> int \<Rightarrow> bool \<Rightarrow> (nat \<Rightarrow> platform_env) \<Rightarrow> state \<Rightarrow> state" where
  "forceGenerateContent = generateContentForToday"


text \<open>
  Two notions used to state what a run of the daily generation achieves: the rows it
  added to \<^verbatim>\<open>content_posts\<close>, and a slot at which the generation call returns
  content, the preferred time yields a valid date, and the store accepts the row.
\<close>

definition newPosts :: "state \<Rightarrow> state \<Rightarrow> content_post list" where
  "newPosts s s1 = drop (length (content_posts s)) (content_posts s1)"

definition slotSucceeds :: "host \<Rightarrow> ScheduleEntry \<Rightarrow> (nat \<Rightarrow> slot_env) \<Rightarrow> nat \<Rightarrow> bool" where
  "slotSucceeds h schedule env i =
     (generated (env i) \<noteq> None
      \<and> slotInstant h schedule (preferredTimesOf schedule ! i) (slot_now (env i)) \<noteq> None
      \<and> inserted (env i) \<noteq> None)"

section \<open>Sample inputs\<close>

text \<open>
  A scheduler as its constructor leaves it, over an empty store; one post scheduled on
  dev.to with its job, due since the epoch; platform calls that fail or succeed.
\<close>

definition noJob :: PostingJob where
  "noJob = \<lparr> attempts = 0, platform = [],
             content = \<lparr> c_title = [], c_content = [], tags = None, mediaUrl = None \<rparr>,
             scheduledTime = 0, postId = [] \<rparr>"

definition initial :: state where
  "initial = \<lparr> jobs = [], intervalId = None, scheduleWatchInterval = None, isRunning = False,
               dailyGenerationScheduled = False, processingJobs = {}, lastProcessTime = 0,
               lastScheduleState = [], objects = (\<lambda>r. noJob), nextObject = 0,
               intervals = {}, content_posts = [], posting_schedule = [],
               notifications = [] \<rparr>"

definition draft :: GeneratedContent where
  "draft = \<lparr> c_title = ''Hello'', c_content = ''World'', tags = None, mediaUrl = None \<rparr>"

definition row :: "string \<Rightarrow> string \<Rightarrow> date option \<Rightarrow> content_post" where
  "row pid st t =
     \<lparr> p_id = pid, p_user_id = ''u1'', p_platform_name = ''devto'', post_type = PostType ''blog'',
       p_title = ''Hello'', p_content = ''World'', media_url = None, status = st,
       scheduled_for = t, platform_post_id = None, error_message = None, posted_at = None \<rparr>"

definition job :: "string \<Rightarrow> date \<Rightarrow> PostingJob" where
  "job pid t = \<lparr> attempts = 0, platform = ''devto'', content = draft, scheduledTime = t,
                 postId = pid \<rparr>"

definition oneJob :: state where
  "oneJob = initial\<lparr> jobs := [0], objects := (objects initial)(0 := job ''p1'' 0),
                     nextObject := 1, content_posts := [row ''p1'' ''scheduled'' (Some 0)] \<rparr>"

definition twoJobs :: state where
  "twoJobs = initial\<lparr> jobs := [0, 1],
                      objects := (objects initial)(0 := job ''p1'' 200, 1 := job ''p2'' 100),
                      nextObject := 2,
                      content_posts := [row ''p1'' ''scheduled'' (Some 200),
                                        row ''p2'' ''scheduled'' (Some 100)] \<rparr>"

definition running :: state where
  "running = oneJob\<lparr> intervalId := Some 1, scheduleWatchInterval := Some 2, isRunning := True,
                     processingJobs := {''p1''}, lastProcessTime := 60000,
                     lastScheduleState := ''[]'', intervals := {1, 2, 3} \<rparr>"

definition failing :: "int \<Rightarrow> nat \<Rightarrow> publish_env" where
  "failing c i = \<lparr> api_result = Inl ''HTTP 503'', clock = c \<rparr>"

definition succeeding :: "int \<Rightarrow> nat \<Rightarrow> publish_env" where
  "succeeding c i = \<lparr> api_result = Inr ''article-77'', clock = c \<rparr>"

text \<open>
  Three dispatch ticks at which the job of \<open>oneJob\<close> is due and the platform call fails,
  (the ticks in between, at which it is not due, change nothing but \<open>lastProcessTime\<close>),
  and the tick after.
\<close>

definition firstFailure :: state where
  "firstFailure = processScheduledPosts 60000 (failing 60500) oneJob"

definition secondFailure :: state where
  "secondFailure = processScheduledPosts 240000 (failing 240500) firstFailure"

definition thirdFailure :: state where
  "thirdFailure = processScheduledPosts 540000 (failing 540500) secondFailure"

definition tickAfter :: state where
  "tickAfter = processScheduledPosts 600000 (succeeding 600500) thirdFailure"

text \<open>A store holding one post with status \<^verbatim>\<open>scheduled\<close> and no \<^verbatim>\<open>scheduled_for\<close>.\<close>

definition undated :: state where
  "undated = initial\<lparr> content_posts := [row ''p3'' ''scheduled'' None] \<rparr>"

text \<open>
  Host zones: UTC; Asia/Kolkata and America/Bogota, which keep one offset; and
  America/New_York with its two changes of 2024 (to daylight-saving time on 10 March at
  07:00 UTC, back on 3 November at 06:00 UTC).
\<close>

definition utc :: zone where
  "utc = \<lparr> firstOffset = 0, changes = [] \<rparr>"

definition kolkata :: zone where
  "kolkata = \<lparr> firstOffset = - 330, changes = [] \<rparr>"

definition bogota :: zone where
  "bogota = \<lparr> firstOffset = 300, changes = [] \<rparr>"

definition newYork :: zone where
  "newYork = \<lparr> firstOffset = 300,
               changes = [(1710054000000, 240), (1730613600000, 300)] \<rparr>"

text \<open>
  A host in UTC whose two conversions read plain decimal digit strings, on which they
  agree with \<^verbatim>\<open>Number\<close> and \<^verbatim>\<open>parseInt\<close>; a clock reading on a Monday (2024-01-01) at
  10:00 local time; a weekly schedule for dev.to; slots at which everything succeeds.
\<close>

definition digit :: "char \<Rightarrow> bool" where
  "digit c = (48 \<le> (of_char c :: nat) \<and> (of_char c :: nat) \<le> 57)"

definition decimal :: "string \<Rightarrow> int option" where
  "decimal x =
     (if x \<noteq> [] \<and> list_all digit x
      then Some (foldl (\<lambda>a c. 10 * a + (int (of_char c) - 48)) 0 x)
      else None)"

definition utcHost :: host where
  "utcHost = \<lparr> hostZone = utc, toNumber = decimal, parseInt10 = decimal \<rparr>"

definition mondayTen :: int where
  "mondayTen = 1704083400000"

definition weekly :: "int option \<Rightarrow> string list \<Rightarrow> jsval list \<Rightarrow> ScheduleEntry" where
  "weekly m ts ds =
     \<lparr> s_id = ''s1'', s_user_id = ''u1'', s_platform_name = ''devto'',
       max_posts_per_day = m, preferred_times = Some ts, days_of_week = Some ds,
       is_active = True \<rparr>"

definition configured :: "ScheduleEntry \<Rightarrow> state" where
  "configured schedule = initial\<lparr> posting_schedule := [schedule] \<rparr>"

definition smooth :: "nat \<Rightarrow> platform_env" where
  "smooth k = \<lparr> check_now = mondayTen,
                 slots = (\<lambda>i. \<lparr> generated = Some draft, slot_now = mondayTen,
                                 inserted = Some (if i = 0 then ''n0'' else ''n1'') \<rparr>) \<rparr>"

definition zeroMax :: ScheduleEntry where
  "zeroMax = weekly (Some 0) [''09:00'', ''18:00''] [JNum 1]"

definition twoSlots :: ScheduleEntry where
  "twoSlots = weekly (Some 2) [''09:00'', ''18:00''] [JNum 1]"

section \<open>Properties of the time utility\<close>

text \<open>
  C8, as the code has it. Converting an instant \<open>t\<close> to local time and back returns \<open>t\<close>
  exactly when \<open>t\<close> is a time value a \<^verbatim>\<open>Date\<close> can hold and so is \<open>t\<close> shifted by +5:30;
  converting from local time and forth returns \<open>t\<close> exactly when \<open>t\<close> and \<open>t\<close> shifted by
  -5:30 are such time values. Within these bounds the shift and its inverse are exact
  mutual inverses on millisecond time values; beyond them the shifted date is invalid.
\<close>

theorem toIST_fromIST_roundtrip:
  "(fromIST (toIST (Some t)) = Some t)
     = (- 8640000000000000 \<le> t \<and> t \<le> 8640000000000000 - IST_OFFSET_MS)
   \<and> (toIST (fromIST (Some t)) = Some t)
     = (- 8640000000000000 + IST_OFFSET_MS \<le> t \<and> t \<le> 8640000000000000)"
  by (auto simp: toIST_def fromIST_def newDate_def TimeClip_def IST_OFFSET_MS_def)

text \<open>
  The latest instant a \<^verbatim>\<open>Date\<close> can hold has no local time: the shifted date is
  invalid, and the round trip gives an invalid date, not the instant.
\<close>

theorem toIST_fromIST_range_counterexample:
  "TimeClip 8640000000000000 = Some 8640000000000000
   \<and> toIST (Some 8640000000000000) = None
   \<and> fromIST (toIST (Some 8640000000000000)) \<noteq> Some 8640000000000000"
  by (simp add: toIST_def fromIST_def newDate_def TimeClip_def IST_OFFSET_MS_def)


lemma roundDouble_exact: "\<bar>x\<bar> \<le> 9007199254740992 \<Longrightarrow> roundDouble x = Some x"
  by (simp add: roundDouble_def)




lemmas zone_unfold =
  getTimezoneOffset_def localOffset_def LocalTime_def UTC_of_def Day_def msPerDay_def
  utc_def kolkata_def bogota_def newYork_def

lemmas time_unfold =
  getCurrentIST_def toIST_def fromIST_def newDate_def TimeClip_def setHours_def addDate_def
  getDay_def MakeDate_def MakeTime_def mulNumber_def addNumber_def roundDouble_exact
  IST_OFFSET_MS_def getISTDayBoundsUTC_def dateDiff_def dateLe_def dateLt_def zone_unfold



section \<open>Properties of the dispatcher\<close>

lemmas dispatch_unfold =
  processScheduledPosts_def processJob_def postToPlatform_def supported_def update_post_def
  notify_def Let_def

lemmas sample_unfold =
  oneJob_def initial_def job_def row_def failing_def succeeding_def draft_def

lemma firstFailure_state:
  "jobs firstFailure = [0]"
  "objects firstFailure 0 = (job ''p1'' 0)\<lparr>attempts := 1, scheduledTime := 180500\<rparr>"
  "content_posts firstFailure = [row ''p1'' ''posting'' (Some 0)]"
  "processingJobs firstFailure = {}"
  "lastProcessTime firstFailure = 60000"
  unfolding firstFailure_def by (simp_all add: dispatch_unfold sample_unfold)

lemma secondFailure_state:
  "jobs secondFailure = [0]"
  "objects secondFailure 0 = (job ''p1'' 0)\<lparr>attempts := 2, scheduledTime := 480500\<rparr>"
  "content_posts secondFailure = [row ''p1'' ''posting'' (Some 0)]"
  "processingJobs secondFailure = {}"
  "lastProcessTime secondFailure = 240000"
  unfolding secondFailure_def
  by (simp_all add: dispatch_unfold firstFailure_state job_def row_def failing_def)

lemma thirdFailure_state:
  "jobs thirdFailure = [0]"
  "objects thirdFailure 0 = (job ''p1'' 0)\<lparr>attempts := 3, scheduledTime := 480500\<rparr>"
  "content_posts thirdFailure = [(row ''p1'' ''failed'' (Some 0))\<lparr>error_message := Some ''HTTP 503''\<rparr>]"
  "processingJobs thirdFailure = {}"
  "lastProcessTime thirdFailure = 540000"
  unfolding thirdFailure_def
  by (simp_all add: dispatch_unfold secondFailure_state job_def row_def failing_def)

lemma tickAfter_state:
  "jobs tickAfter = []"
  "content_posts tickAfter =
     [(row ''p1'' ''published'' (Some 0))\<lparr>error_message := Some ''HTTP 503'',
        platform_post_id := Some ''article-77'', posted_at := Some 600500\<rparr>]"
  unfolding tickAfter_def
  by (simp_all add: dispatch_unfold thirdFailure_state job_def row_def succeeding_def)

text \<open>
  A failed attempt never takes the job off the list, whatever its count of attempts: only
  the branch of a successful publication filters \<open>jobs\<close>.
\<close>

lemma processJob_failure_keeps_jobs:
  assumes "postToPlatform (objects s r) pe = Inl msg"
  shows "jobs (processJob pe r s) = jobs s"
  using assms by (simp add: processJob_def update_post_def notify_def Let_def)

text \<open>
  The delay of a retry: the count of attempts is raised first, and the job is put off by
  two to the power of the raised count, in minutes.
\<close>

lemma processJob_retry_delay:
  assumes "postId (objects s r) \<notin> processingJobs s"
    and "postToPlatform (objects s r) pe = Inl msg"
    and "attempts (objects s r) < 2"
  shows "scheduledTime (objects (processJob pe r s) r)
           = clock pe + 2 ^ (attempts (objects s r) + 1) * 60000
         \<and> attempts (objects (processJob pe r s) r) = attempts (objects s r) + 1"
  using assms by (simp add: processJob_def update_post_def notify_def Let_def)

text \<open>
  C1, on the code. The job of \<open>oneJob\<close> fails at three consecutive attempts. After the third
  the post is \<^verbatim>\<open>failed\<close> and carries the error message, but the job is still on the
  list, with three attempts and a scheduled time in the past: the next tick selects it
  again, and a publication that succeeds then takes the post from \<^verbatim>\<open>failed\<close> to
  \<^verbatim>\<open>published\<close>.
\<close>

theorem exhausted_job_stays_listed:
  "map status (content_posts thirdFailure) = [''failed'']
   \<and> map error_message (content_posts thirdFailure) = [Some ''HTTP 503'']
   \<and> jobs thirdFailure = [0]
   \<and> attempts (objects thirdFailure 0) = 3
   \<and> scheduledTime (objects thirdFailure 0) \<le> 600000
   \<and> map status (content_posts tickAfter) = [''published'']"
  by (simp add: thirdFailure_state tickAfter_state job_def row_def)

text \<open>
  C2, on the code. The retry after the first failed attempt is put off by two minutes from
  the clock reading at the failure, the retry after the second by four; the third failure
  schedules nothing (the scheduled time stays what the second failure made it). No
  failure is followed by a delay of one minute.
\<close>

theorem retry_delays_are_two_and_four_minutes:
  "scheduledTime (objects firstFailure 0) = 60500 + 2 * 60000
   \<and> scheduledTime (objects firstFailure 0) \<noteq> 60500 + 1 * 60000
   \<and> scheduledTime (objects secondFailure 0) = 240500 + 4 * 60000
   \<and> scheduledTime (objects thirdFailure 0) = scheduledTime (objects secondFailure 0)"
  by (simp add: firstFailure_state secondFailure_state thirdFailure_state job_def)

section \<open>Properties of stop, getStatus and recovery\<close>

text \<open>
  C3, as the code has it. After \<^verbatim>\<open>stop()\<close> the processing-set is empty, both periodic
  timers are cancelled and their handles dropped, the rate-limit bookkeeping and the
  schedule fingerprint are reset, the scheduler is not running, and no row of the store
  is touched. The in-memory job list is left as it was.
\<close>

theorem stop_effect:
  "processingJobs (stop s) = {}
   \<and> intervalId (stop s) = None \<and> scheduleWatchInterval (stop s) = None
   \<and> intervals (stop s) = intervals s - set_option (intervalId s)
                             - set_option (scheduleWatchInterval s)
   \<and> lastProcessTime (stop s) = 0 \<and> lastScheduleState (stop s) = []
   \<and> isRunning (stop s) = False
   \<and> content_posts (stop s) = content_posts s
   \<and> jobs (stop s) = jobs s \<and> objects (stop s) = objects s"
  by (cases "intervalId s"; cases "scheduleWatchInterval s") (auto simp: stop_def Let_def)

text \<open>A running scheduler with one job still has that job after \<^verbatim>\<open>stop()\<close>.\<close>

theorem stop_keeps_jobs_counterexample:
  "jobs (stop running) = [0] \<and> jobs (stop running) \<noteq> []"
  by (simp add: stop_def running_def oneJob_def initial_def Let_def)

text \<open>
  C9, on the code. With two jobs listed later-first, \<^verbatim>\<open>getStatus()\<close> reports the earlier
  scheduled time as the next job and leaves the list sorted by scheduled time: the state
  has changed, and with it the order in which a tick processes the two jobs.
\<close>

theorem getStatus_reorders_jobs:
  "jobs twoJobs = [0, 1]
   \<and> r_nextJob (fst (getStatus twoJobs)) = Some 100
   \<and> jobs (snd (getStatus twoJobs)) = [1, 0]
   \<and> snd (getStatus twoJobs) \<noteq> twoJobs"
proof -
  have j: "jobs twoJobs = [0, 1]"
    by (simp add: twoJobs_def initial_def)
  have o: "scheduledTime (objects twoJobs 0) = 200"
    "scheduledTime (objects twoJobs (Suc 0)) = 100"
    by (simp_all add: twoJobs_def initial_def job_def)
  have n: "r_nextJob (fst (getStatus twoJobs)) = Some 100"
    by (simp add: getStatus_def j o Let_def)
  have s: "jobs (snd (getStatus twoJobs)) = [1, 0]"
    by (simp add: getStatus_def j o Let_def)
  from s j have "snd (getStatus twoJobs) \<noteq> twoJobs"
    by auto
  with j n s show ?thesis by simp
qed

lemma newObjects_fresh:
  "newObjects js s = (rs, s1) \<Longrightarrow>
     rs = [nextObject s ..< nextObject s + length js]
     \<and> nextObject s1 = nextObject s + length js
     \<and> map (objects s1) rs = js
     \<and> (\<forall>a < nextObject s. objects s1 a = objects s a)
     \<and> content_posts s1 = content_posts s"
proof (induction js arbitrary: s rs s1)
  case Nil
  then show ?case by simp
next
  case (Cons j js)
  obtain r t where a: "newObject j s = (r, t)"
    by (cases "newObject j s")
  obtain rs' t' where b: "newObjects js t = (rs', t')"
    by (cases "newObjects js t")
  from Cons.prems a b have eq: "rs = r # rs'" "s1 = t'"
    by simp_all
  from a have r: "r = nextObject s" "nextObject t = Suc (nextObject s)"
    "objects t = (objects s)(nextObject s := j)" "content_posts t = content_posts s"
    by (auto simp: newObject_def)
  from Cons.IH [OF b] have ih:
    "rs' = [nextObject t ..< nextObject t + length js]"
    "nextObject t' = nextObject t + length js"
    "map (objects t') rs' = js"
    "\<forall>a < nextObject t. objects t' a = objects t a"
    "content_posts t' = content_posts t"
    by blast+
  have c1: "rs = [nextObject s ..< nextObject s + length (j # js)]"
  proof -
    have lt: "nextObject s < nextObject s + length (j # js)"
      by simp
    have e: "nextObject s + length (j # js) = Suc (nextObject s) + length js"
      by simp
    have "[nextObject s ..< nextObject s + length (j # js)]
            = nextObject s # [Suc (nextObject s) ..< Suc (nextObject s) + length js]"
      using upt_conv_Cons [OF lt] unfolding e .
    also have "\<dots> = r # rs'"
      unfolding ih(1) r(1,2) ..
    finally show ?thesis
      using eq(1) by simp
  qed
  have c2: "nextObject s1 = nextObject s + length (j # js)"
    using eq(2) ih(2) r(2) by simp
  have "objects t' r = j"
    using ih(4) r(1,2,3) by simp
  then have c3: "map (objects s1) rs = j # js"
    using eq ih(3) by simp
  have c4: "\<forall>a < nextObject s. objects s1 a = objects s a"
    using eq(2) ih(4) r(2,3) by simp
  have c5: "content_posts s1 = content_posts s"
    using eq(2) ih(5) r(4) by simp
  show ?case
    using c1 c2 c3 c4 c5 by blast
qed

text \<open>
  C10, as the code has it. With a signed-in user \<open>u\<close> and an answer from the store, the
  recovery step replaces the job list by one fresh job object for each row of
  \<^verbatim>\<open>content_posts\<close> that belongs to \<open>u\<close>, has status \<^verbatim>\<open>scheduled\<close> and has a
  \<^verbatim>\<open>scheduled_for\<close> that is not null, in the order of the rows; every such job has
  \<open>attempts = 0\<close> and the id of its row, so no retry count survives a restart.
\<close>

theorem loadScheduledPosts_rebuilds_jobs:
  "map (objects (loadScheduledPosts (Some u) True s)) (jobs (loadScheduledPosts (Some u) True s))
     = map jobOfPost (scheduledRows u (content_posts s))
   \<and> distinct (jobs (loadScheduledPosts (Some u) True s))
   \<and> map (\<lambda>r. postId (objects (loadScheduledPosts (Some u) True s) r))
         (jobs (loadScheduledPosts (Some u) True s))
     = map p_id (scheduledRows u (content_posts s))
   \<and> map (\<lambda>r. attempts (objects (loadScheduledPosts (Some u) True s) r))
         (jobs (loadScheduledPosts (Some u) True s))
     = replicate (length (scheduledRows u (content_posts s))) 0
   \<and> content_posts (loadScheduledPosts (Some u) True s) = content_posts s"
proof -
  define js where "js = map jobOfPost (scheduledRows u (content_posts s))"
  obtain rs s1 where n: "newObjects js s = (rs, s1)"
    by (cases "newObjects js s")
  have l: "loadScheduledPosts (Some u) True s = s1\<lparr>jobs := rs\<rparr>"
    using n by (simp add: loadScheduledPosts_def js_def)
  from newObjects_fresh [OF n] have f:
    "rs = [nextObject s ..< nextObject s + length js]" "map (objects s1) rs = js"
    "content_posts s1 = content_posts s"
    by blast+
  have m: "map (objects (s1\<lparr>jobs := rs\<rparr>)) (jobs (s1\<lparr>jobs := rs\<rparr>)) = js"
    using f(2) by simp
  have d: "distinct rs"
    using f(1) by simp
  have "map (\<lambda>r. postId (objects s1 r)) rs = map postId (map (objects s1) rs)"
    by simp
  also have "\<dots> = map p_id (scheduledRows u (content_posts s))"
    unfolding f(2) by (simp add: js_def jobOfPost_def comp_def)
  finally have p: "map (\<lambda>r. postId (objects s1 r)) rs = map p_id (scheduledRows u (content_posts s))" .
  have "map (\<lambda>r. attempts (objects s1 r)) rs = map attempts (map (objects s1) rs)"
    by simp
  also have "\<dots> = replicate (length (scheduledRows u (content_posts s))) 0"
    unfolding f(2) by (simp add: js_def jobOfPost_def comp_def map_replicate_const)
  finally have a: "map (\<lambda>r. attempts (objects s1 r)) rs
                     = replicate (length (scheduledRows u (content_posts s))) 0" .
  show ?thesis
    unfolding l using m d p a f(3) by (simp add: js_def)
qed

text \<open>
  A post with status \<^verbatim>\<open>scheduled\<close> whose \<^verbatim>\<open>scheduled_for\<close> is null gets no job.
\<close>

theorem loadScheduledPosts_undated_counterexample:
  "map status (content_posts undated) = [''scheduled'']
   \<and> map p_user_id (content_posts undated) = [''u1'']
   \<and> jobs (loadScheduledPosts (Some ''u1'') True undated) = []"
  by (simp add: loadScheduledPosts_def scheduledRows_def undated_def initial_def row_def)

section \<open>Properties of the daily generation\<close>


lemma scheduleSlot_appends:
  "\<exists>new. content_posts (scheduleSlot h sch t e s) = content_posts s @ new
     \<and> (\<forall>p\<in>set new. status p = ''scheduled'' \<and> p_platform_name p = s_platform_name sch)"
  by (auto simp: scheduleSlot_def notify_def newObject_def Let_def
      split: option.splits prod.splits)

lemma scheduleSlot_success:
  assumes "generated e \<noteq> None" "slotInstant h sch t (slot_now e) \<noteq> None"
    "inserted e \<noteq> None"
  shows "\<exists>p. content_posts (scheduleSlot h sch t e s) = content_posts s @ [p]
     \<and> status p = ''scheduled'' \<and> p_platform_name p = s_platform_name sch"
  using assms
  by (auto simp: scheduleSlot_def notify_def newObject_def Let_def
      split: option.splits prod.splits)

lemma slotLoop_step:
  "int i < min m (int (length ts)) \<Longrightarrow>
     slotLoop h sch m ts env i s
       = slotLoop h sch m ts env (Suc i) (scheduleSlot h sch (ts ! i) (env i) s)"
  by (subst slotLoop.simps) (simp only: if_True)

lemma slotLoop_done:
  "\<not> int i < min m (int (length ts)) \<Longrightarrow> slotLoop h sch m ts env i s = s"
  by (subst slotLoop.simps) (simp only: if_False)

lemma slotLoop_appends:
  "\<exists>new. content_posts (slotLoop h sch m ts env i s) = content_posts s @ new
     \<and> (\<forall>p\<in>set new. status p = ''scheduled'' \<and> p_platform_name p = s_platform_name sch)"
proof (induction h sch m ts env i s rule: slotLoop.induct)
  case (1 h sch m ts env i s)
  show ?case
  proof (cases "int i < min m (int (length ts))")
    case True
    let ?s1 = "scheduleSlot h sch (ts ! i) (env i) s"
    obtain a where a: "content_posts ?s1 = content_posts s @ a"
      "\<forall>p\<in>set a. status p = ''scheduled'' \<and> p_platform_name p = s_platform_name sch"
      using scheduleSlot_appends by blast
    obtain b where b: "content_posts (slotLoop h sch m ts env (Suc i) ?s1) = content_posts ?s1 @ b"
      "\<forall>p\<in>set b. status p = ''scheduled'' \<and> p_platform_name p = s_platform_name sch"
      using "1.IH" [OF True] by blast
    have "slotLoop h sch m ts env i s = slotLoop h sch m ts env (Suc i) ?s1"
      using True by (rule slotLoop_step)
    then have "content_posts (slotLoop h sch m ts env i s) = content_posts s @ (a @ b)"
      using a(1) b(1) by simp
    moreover have "\<forall>p\<in>set (a @ b). status p = ''scheduled'' \<and> p_platform_name p = s_platform_name sch"
      using a(2) b(2) by auto
    ultimately show ?thesis by blast
  next
    case False
    then have "slotLoop h sch m ts env i s = s"
      by (rule slotLoop_done)
    then show ?thesis by simp
  qed
qed

lemma slotLoop_success:
  assumes "\<forall>k. i \<le> k \<and> int k < min m (int (length ts)) \<longrightarrow>
             generated (env k) \<noteq> None
             \<and> slotInstant h sch (ts ! k) (slot_now (env k)) \<noteq> None
             \<and> inserted (env k) \<noteq> None"
  shows "\<exists>new. content_posts (slotLoop h sch m ts env i s) = content_posts s @ new
     \<and> int (length new) = max 0 (min m (int (length ts)) - int i)
     \<and> (\<forall>p\<in>set new. status p = ''scheduled'' \<and> p_platform_name p = s_platform_name sch)"
  using assms
proof (induction h sch m ts env i s rule: slotLoop.induct)
  case (1 h sch m ts env i s)
  show ?case
  proof (cases "int i < min m (int (length ts))")
    case True
    let ?s1 = "scheduleSlot h sch (ts ! i) (env i) s"
    have ok: "generated (env i) \<noteq> None"
      "slotInstant h sch (ts ! i) (slot_now (env i)) \<noteq> None" "inserted (env i) \<noteq> None"
      using "1.prems" True by auto
    obtain p where p: "content_posts ?s1 = content_posts s @ [p]"
      "status p = ''scheduled''" "p_platform_name p = s_platform_name sch"
      using scheduleSlot_success [OF ok] by blast
    have rest: "\<forall>k. Suc i \<le> k \<and> int k < min m (int (length ts)) \<longrightarrow>
             generated (env k) \<noteq> None
             \<and> slotInstant h sch (ts ! k) (slot_now (env k)) \<noteq> None
             \<and> inserted (env k) \<noteq> None"
      using "1.prems" by auto
    obtain b where b: "content_posts (slotLoop h sch m ts env (Suc i) ?s1) = content_posts ?s1 @ b"
      "int (length b) = max 0 (min m (int (length ts)) - int (Suc i))"
      "\<forall>p\<in>set b. status p = ''scheduled'' \<and> p_platform_name p = s_platform_name sch"
      using "1.IH" [OF True rest] by blast
    have "slotLoop h sch m ts env i s = slotLoop h sch m ts env (Suc i) ?s1"
      using True by (rule slotLoop_step)
    then have "content_posts (slotLoop h sch m ts env i s) = content_posts s @ (p # b)"
      using p(1) b(1) by simp
    moreover have "int (length (p # b)) = max 0 (min m (int (length ts)) - int i)"
      using b(2) True by simp
    moreover have "\<forall>q\<in>set (p # b). status q = ''scheduled'' \<and> p_platform_name q = s_platform_name sch"
      using p(2,3) b(3) by auto
    ultimately show ?thesis by blast
  next
    case False
    then have "slotLoop h sch m ts env i s = s"
      by (rule slotLoop_done)
    moreover have "max 0 (min m (int (length ts)) - int i) = 0"
      using False by linarith
    ultimately show ?thesis by simp
  qed
qed

lemma scheduleContentForPlatform_appends:
  "\<exists>new. content_posts (scheduleContentForPlatform h sch env s) = content_posts s @ new
     \<and> (\<forall>p\<in>set new. status p = ''scheduled'' \<and> p_platform_name p = s_platform_name sch)"
  unfolding scheduleContentForPlatform_def Let_def by (rule slotLoop_appends)

lemma scheduleContentForPlatform_success:
  assumes "\<forall>i < nat (min (maxPostsOf sch) (int (length (preferredTimesOf sch)))).
             slotSucceeds h sch env i"
  shows "\<exists>new. content_posts (scheduleContentForPlatform h sch env s) = content_posts s @ new
     \<and> int (length new) = max 0 (min (maxPostsOf sch) (int (length (preferredTimesOf sch))))
     \<and> (\<forall>p\<in>set new. status p = ''scheduled'' \<and> p_platform_name p = s_platform_name sch)"
proof -
  have "\<forall>k. 0 \<le> k \<and> int k < min (maxPostsOf sch) (int (length (preferredTimesOf sch))) \<longrightarrow>
          generated (env k) \<noteq> None
          \<and> slotInstant h sch (preferredTimesOf sch ! k) (slot_now (env k)) \<noteq> None
          \<and> inserted (env k) \<noteq> None"
    using assms by (auto simp: slotSucceeds_def)
  from slotLoop_success [OF this, where s = s]
  show ?thesis
    unfolding scheduleContentForPlatform_def Let_def by simp
qed

lemma hasContentForToday_append:
  assumes "content_posts s1 = content_posts s @ new"
    and "\<forall>p\<in>set new. status p = ''scheduled''"
  shows "hasContentForToday h user now P s1 = hasContentForToday h user now P s"
proof (cases user)
  case None
  then show ?thesis by (simp add: hasContentForToday_def)
next
  case (Some u)
  have "\<not> (status p = ''posted'' \<or> status p = ''published'')" if "p \<in> set new" for p
    using assms(2) that by simp
  then have "filter (\<lambda>p. A p \<and> B p \<and> (status p = ''posted'' \<or> status p = ''published'') \<and> C p) new = []"
    for A B C :: "content_post \<Rightarrow> bool"
    unfolding filter_empty_conv by blast
  then show ?thesis
    unfolding hasContentForToday_def Let_def assms(1) Some
    by (simp split: option.splits prod.splits)
qed

lemma platformLoop_append:
  "platformLoop h user envs k (xs @ ys) s
     = platformLoop h user envs (k + length xs) ys (platformLoop h user envs k xs s)"
  by (induction xs arbitrary: k s) simp_all

lemma platformLoop_others:
  assumes "\<forall>c\<in>set scheds. s_platform_name c \<noteq> P"
  shows "\<exists>new. content_posts (platformLoop h user envs k scheds s) = content_posts s @ new
     \<and> (\<forall>p\<in>set new. status p = ''scheduled'' \<and> p_platform_name p \<noteq> P)"
  using assms
proof (induction scheds arbitrary: k s)
  case Nil
  then show ?case by simp
next
  case (Cons c cs)
  let ?s1 = "if hasContentForToday h user (check_now (envs k)) (s_platform_name c) s then s
             else scheduleContentForPlatform h c (slots (envs k)) s"
  have c: "s_platform_name c \<noteq> P"
    using Cons.prems by simp
  obtain a where a: "content_posts ?s1 = content_posts s @ a"
    "\<forall>p\<in>set a. status p = ''scheduled'' \<and> p_platform_name p \<noteq> P"
  proof (cases "hasContentForToday h user (check_now (envs k)) (s_platform_name c) s")
    case True
    then have "content_posts ?s1 = content_posts s @ []" by simp
    then show ?thesis using that by fastforce
  next
    case False
    obtain n where "content_posts (scheduleContentForPlatform h c (slots (envs k)) s)
                      = content_posts s @ n"
      "\<forall>p\<in>set n. status p = ''scheduled'' \<and> p_platform_name p = s_platform_name c"
      using scheduleContentForPlatform_appends by blast
    then show ?thesis using that [of n] False c by simp
  qed
  obtain b where b: "content_posts (platformLoop h user envs (Suc k) cs ?s1) = content_posts ?s1 @ b"
    "\<forall>p\<in>set b. status p = ''scheduled'' \<and> p_platform_name p \<noteq> P"
    using Cons.IH [of "Suc k" ?s1] Cons.prems by auto
  have "content_posts (platformLoop h user envs k (c # cs) s) = content_posts s @ (a @ b)"
    using a(1) b(1) by simp
  moreover have "\<forall>p\<in>set (a @ b). status p = ''scheduled'' \<and> p_platform_name p \<noteq> P"
    using a(2) b(2) by auto
  ultimately show ?case by blast
qed

text \<open>
  C4, as the code has it. Let a user be signed in and the query for the schedules answer
  without an error. Let \<open>cfg\<close> be one of the user's active schedules for today (its
  \<^verbatim>\<open>days_of_week\<close>, strings parsed, contain the current local weekday), the only one
  of them for its platform, with no \<^verbatim>\<open>posted\<close> or \<^verbatim>\<open>published\<close> post of that
  platform inside today's local-day window. If at every slot the generation call
  succeeds, the preferred time yields a valid date and the store accepts the row, then
  the daily generation adds exactly \<open>min(m, preferredTimes.length)\<close> posts for that
  platform (none when that number is negative), where \<open>m\<close> is \<^verbatim>\<open>max_posts_per_day\<close>,
  or 3 when \<^verbatim>\<open>max_posts_per_day\<close> is 0 or missing. Every post the run adds has status
  \<^verbatim>\<open>scheduled\<close>, and the rows that were there are untouched.
\<close>

theorem daily_generation_posts:
  assumes today: "todaySchedules h u (getDay (hostZone h) (getCurrentIST (hostZone h) now)) s
                    = before @ cfg # after"
    and single: "\<forall>c\<in>set (before @ after). s_platform_name c \<noteq> s_platform_name cfg"
    and fresh: "\<not> hasContentForToday h (Some u) (check_now (envs (length before)))
                    (s_platform_name cfg) s"
    and ok: "\<forall>i < nat (min (maxPostsOf cfg) (int (length (preferredTimesOf cfg)))).
               slotSucceeds h cfg (slots (envs (length before))) i"
  shows "int (length (filter (\<lambda>p. p_platform_name p = s_platform_name cfg)
                (newPosts s (generateContentForToday h (Some u) now True envs s))))
           = max 0 (min (maxPostsOf cfg) (int (length (preferredTimesOf cfg))))
         \<and> list_all (\<lambda>p. status p = ''scheduled'')
               (newPosts s (generateContentForToday h (Some u) now True envs s))
         \<and> take (length (content_posts s))
               (content_posts (generateContentForToday h (Some u) now True envs s))
             = content_posts s"
proof -
  let ?P = "s_platform_name cfg"
  let ?k = "length before"
  let ?day = "getDay (hostZone h) (getCurrentIST (hostZone h) now)"
  define sA where "sA = platformLoop h (Some u) envs 0 before s"
  define sB where "sB = scheduleContentForPlatform h cfg (slots (envs ?k)) sA"
  define sC where "sC = platformLoop h (Some u) envs (Suc ?k) after sB"
  have ne: "filter (\<lambda>r. s_user_id r = u \<and> is_active r) (posting_schedule s) \<noteq> []"
    using today unfolding todaySchedules_def by (metis append_is_Nil_conv filter.simps(1) list.distinct(1))
  have gen: "generateContentForToday h (Some u) now True envs s
               = platformLoop h (Some u) envs 0 (before @ cfg # after) s"
    using ne today by (simp add: generateContentForToday_def Let_def)
  have sb: "\<forall>c\<in>set before. s_platform_name c \<noteq> ?P"
    and sa: "\<forall>c\<in>set after. s_platform_name c \<noteq> ?P"
    using single by auto
  obtain a where a: "content_posts sA = content_posts s @ a"
    "\<forall>p\<in>set a. status p = ''scheduled'' \<and> p_platform_name p \<noteq> ?P"
    unfolding sA_def using platformLoop_others [OF sb] by blast
  have "hasContentForToday h (Some u) (check_now (envs ?k)) ?P sA
          = hasContentForToday h (Some u) (check_now (envs ?k)) ?P s"
    using a by (intro hasContentForToday_append [of sA s a]) auto
  with fresh have freshA: "\<not> hasContentForToday h (Some u) (check_now (envs ?k)) ?P sA"
    by simp
  obtain b where b: "content_posts sB = content_posts sA @ b"
    "int (length b) = max 0 (min (maxPostsOf cfg) (int (length (preferredTimesOf cfg))))"
    "\<forall>p\<in>set b. status p = ''scheduled'' \<and> p_platform_name p = ?P"
    unfolding sB_def using scheduleContentForPlatform_success [OF ok] by blast
  obtain c where c: "content_posts sC = content_posts sB @ c"
    "\<forall>p\<in>set c. status p = ''scheduled'' \<and> p_platform_name p \<noteq> ?P"
    unfolding sC_def using platformLoop_others [OF sa] by blast
  have "platformLoop h (Some u) envs 0 (before @ cfg # after) s = sC"
    using freshA by (simp add: platformLoop_append sA_def sB_def sC_def)
  with gen have res: "generateContentForToday h (Some u) now True envs s = sC"
    by simp
  have all: "content_posts sC = content_posts s @ (a @ b @ c)"
    using a(1) b(1) c(1) by simp
  then have new: "newPosts s sC = a @ b @ c"
    by (simp add: newPosts_def)
  have "filter (\<lambda>p. p_platform_name p = ?P) a = []" "filter (\<lambda>p. p_platform_name p = ?P) c = []"
    "filter (\<lambda>p. p_platform_name p = ?P) b = b"
    using a(2) b(3) c(2) by (simp_all add: filter_empty_conv filter_id_conv)
  then have "filter (\<lambda>p. p_platform_name p = ?P) (newPosts s sC) = b"
    unfolding new by simp
  moreover have "list_all (\<lambda>p. status p = ''scheduled'') (newPosts s sC)"
    unfolding new using a(2) b(3) c(2) by (auto simp: list_all_iff)
  moreover have "take (length (content_posts s)) (content_posts sC) = content_posts s"
    unfolding all by simp
  ultimately show ?thesis
    unfolding res using b(2) by simp
qed


lemma decimal_samples:
  "decimal ''1'' = Some 1" "decimal ''3'' = Some 3" "decimal ''09'' = Some 9"
  "decimal ''00'' = Some 0" "decimal ''18'' = Some 18"
  by (simp_all add: decimal_def digit_def)

lemma parseTime_samples:
  "parseTime decimal ''09:00'' = (Some 9, Some 0)"
  "parseTime decimal ''18:00'' = (Some 18, Some 0)"
  by (simp_all add: parseTime_def decimal_samples)

lemma mondayNow: "getCurrentIST utc mondayTen = Some 1704103200000"
  by (simp add: time_unfold mondayTen_def)

lemma mondayDay: "getDay utc (Some 1704103200000) = Some 1"
  by (simp add: time_unfold)

lemma monday: "getDay utc (getCurrentIST utc mondayTen) = Some 1"
  by (simp add: mondayNow mondayDay)

lemma scheduledInstant_passed:
  assumes "getCurrentIST z now = Some n"
    and "setHours z (Some n) h m (Some 0) (Some 0) = Some x"
    and "x \<le> n"
    and "getDay z (Some n) = Some d"
    and "addDate z (Some x) (daysToAdd d ds) = Some y"
  shows "scheduledInstant z now (Some ds) h m = fromIST (Some y)"
  using assms by (simp add: scheduledInstant_def Let_def dateLe_def)

lemma scheduledInstant_ahead:
  assumes "getCurrentIST z now = Some n"
    and "setHours z (Some n) h m (Some 0) (Some 0) = Some x"
    and "n < x"
  shows "scheduledInstant z now days h m = fromIST (Some x)"
  using assms by (simp add: scheduledInstant_def Let_def dateLe_def)

lemma setHours_samples:
  "setHours utc (Some 1704103200000) (Some 9) (Some 0) (Some 0) (Some 0) = Some 1704099600000"
  "setHours utc (Some 1704103200000) (Some 18) (Some 0) (Some 0) (Some 0) = Some 1704132000000"
  by (simp_all add: time_unfold)

lemma addDate_samples:
  "addDate utc (Some 1704099600000) 1 = Some 1704186000000"
  "addDate utc (Some 1704099600000) 2 = Some 1704272400000"
  "addDate utc (Some 1704099600000) 7 = Some 1704704400000"
  by (simp_all add: time_unfold)

lemma fromIST_samples:
  "fromIST (Some 1704186000000) = Some 1704166200000"
  "fromIST (Some 1704272400000) = Some 1704252600000"
  "fromIST (Some 1704704400000) = Some 1704684600000"
  "fromIST (Some 1704132000000) = Some 1704112200000"
  by (simp_all add: fromIST_def newDate_def TimeClip_def IST_OFFSET_MS_def)

lemma daysToAdd_samples:
  "daysToAdd 1 [JStr ''1'', JStr ''3''] = 1" "daysToAdd 1 [JNum 1, JNum 3] = 2"
  "daysToAdd 1 [JNum 1] = 7"
  by (simp_all add: daysToAdd_def)

lemma scheduledInstant_samples:
  "scheduledInstant utc mondayTen (Some [JStr ''1'', JStr ''3'']) (Some 9) (Some 0)
     = Some 1704166200000"
  "scheduledInstant utc mondayTen (Some [JNum 1, JNum 3]) (Some 9) (Some 0)
     = Some 1704252600000"
  "scheduledInstant utc mondayTen (Some [JNum 1]) (Some 9) (Some 0) = Some 1704684600000"
  "scheduledInstant utc mondayTen (Some [JNum 1]) (Some 18) (Some 0) = Some 1704112200000"
proof -
  have le: "(1704099600000::int) \<le> 1704103200000" and lt: "(1704103200000::int) < 1704132000000"
    by simp_all
  show "scheduledInstant utc mondayTen (Some [JStr ''1'', JStr ''3'']) (Some 9) (Some 0)
          = Some 1704166200000"
    using scheduledInstant_passed [OF mondayNow setHours_samples(1) le mondayDay,
        of "[JStr ''1'', JStr ''3'']" 1704186000000]
    by (simp add: daysToAdd_samples addDate_samples fromIST_samples)
  show "scheduledInstant utc mondayTen (Some [JNum 1, JNum 3]) (Some 9) (Some 0)
          = Some 1704252600000"
    using scheduledInstant_passed [OF mondayNow setHours_samples(1) le mondayDay,
        of "[JNum 1, JNum 3]" 1704272400000]
    by (simp add: daysToAdd_samples addDate_samples fromIST_samples)
  show "scheduledInstant utc mondayTen (Some [JNum 1]) (Some 9) (Some 0) = Some 1704684600000"
    using scheduledInstant_passed [OF mondayNow setHours_samples(1) le mondayDay,
        of "[JNum 1]" 1704704400000]
    by (simp add: daysToAdd_samples addDate_samples fromIST_samples)
  show "scheduledInstant utc mondayTen (Some [JNum 1]) (Some 18) (Some 0) = Some 1704112200000"
    using scheduledInstant_ahead [OF mondayNow setHours_samples(2) lt, of "Some [JNum 1]"]
    by (simp add: fromIST_samples)
qed

lemma slotInstant_samples:
  "slotInstant utcHost (weekly m ts [JNum 1]) ''09:00'' mondayTen = Some 1704684600000"
  "slotInstant utcHost (weekly m ts [JNum 1]) ''18:00'' mondayTen = Some 1704112200000"
proof -
  have h: "toNumber utcHost = decimal" "hostZone utcHost = utc"
    by (simp_all add: utcHost_def)
  have d: "days_of_week (weekly m ts [JNum 1]) = Some [JNum 1]"
    by (simp add: weekly_def)
  show "slotInstant utcHost (weekly m ts [JNum 1]) ''09:00'' mondayTen = Some 1704684600000"
    unfolding slotInstant_def h d parseTime_samples by (simp add: scheduledInstant_samples)
  show "slotInstant utcHost (weekly m ts [JNum 1]) ''18:00'' mondayTen = Some 1704112200000"
    unfolding slotInstant_def h d parseTime_samples by (simp add: scheduledInstant_samples)
qed

text \<open>
  C6, on the code. On a Monday at 10:00 local time, a schedule whose days are the strings
  \<^verbatim>\<open>"1"\<close> and \<^verbatim>\<open>"3"\<close> counts as scheduled today (the filter parses the strings), and
  its slot at 09:00 has passed. The search for the next day compares the unparsed
  entries with numbers, finds none, and keeps the initial one day: the slot lands on
  Tuesday, a weekday that is not in the schedule. With the numbers 1 and 3 the same
  search finds Wednesday.
\<close>

theorem rollover_ignores_string_days:
  "getDay utc (getCurrentIST utc mondayTen) = Some 1
   \<and> scheduledToday utcHost (Some 1) (weekly (Some 1) [''09:00''] [JStr ''1'', JStr ''3''])
   \<and> parseTime (toNumber utcHost) ''09:00'' = (Some 9, Some 0)
   \<and> daysToAdd 1 [JStr ''1'', JStr ''3''] = 1
   \<and> daysToAdd 1 [JNum 1, JNum 3] = 2
   \<and> scheduledInstant utc mondayTen (Some [JStr ''1'', JStr ''3'']) (Some 9) (Some 0)
       = Some 1704166200000
   \<and> getDay utc (toIST (Some 1704166200000)) = Some 2
   \<and> scheduledInstant utc mondayTen (Some [JNum 1, JNum 3]) (Some 9) (Some 0)
       = Some 1704252600000
   \<and> getDay utc (toIST (Some 1704252600000)) = Some 3"
proof -
  have t: "scheduledToday utcHost (Some 1) (weekly (Some 1) [''09:00''] [JStr ''1'', JStr ''3''])"
    by (simp add: scheduledToday_def utcHost_def weekly_def normalizeDay_def decimal_samples)
  have p: "parseTime (toNumber utcHost) ''09:00'' = (Some 9, Some 0)"
    by (simp add: utcHost_def parseTime_samples)
  have d: "daysToAdd 1 [JStr ''1'', JStr ''3''] = 1" "daysToAdd 1 [JNum 1, JNum 3] = 2"
    by (simp_all add: daysToAdd_samples)
  have i: "scheduledInstant utc mondayTen (Some [JStr ''1'', JStr ''3'']) (Some 9) (Some 0)
             = Some 1704166200000"
    "scheduledInstant utc mondayTen (Some [JNum 1, JNum 3]) (Some 9) (Some 0)
             = Some 1704252600000"
    by (simp_all add: scheduledInstant_samples)
  have w: "getDay utc (toIST (Some 1704166200000)) = Some 2"
    "getDay utc (toIST (Some 1704252600000)) = Some 3"
    by (simp_all add: time_unfold)
  show ?thesis
    using monday t p d i w by simp
qed

text \<open>
  With numeric entries the search is right: it returns the least number of days, between
  1 and 7, that leads to a weekday of the schedule, whenever there is one.
\<close>

lemma daysToAdd_numeric:
  assumes "JNum ((cur + j) mod 7) \<in> set days" "1 \<le> j" "j \<le> 7"
  shows "JNum ((cur + daysToAdd cur days) mod 7) \<in> set days
         \<and> 1 \<le> daysToAdd cur days \<and> daysToAdd cur days \<le> j"
proof -
  have "j = 1 \<or> j = 2 \<or> j = 3 \<or> j = 4 \<or> j = 5 \<or> j = 6 \<or> j = 7"
    using assms(2,3) by arith
  then show ?thesis
    using assms(1) by (auto simp: daysToAdd_def Let_def)
qed


lemma today_sample:
  "todaySchedules utcHost ''u1'' (Some 1) (configured (weekly m ts [JNum 1]))
     = [weekly m ts [JNum 1]]"
  by (simp add: todaySchedules_def configured_def initial_def weekly_def scheduledToday_def
      normalizeDay_def)

lemma fresh_sample:
  "\<not> hasContentForToday h (Some ''u1'') t P (configured c)"
  by (simp add: hasContentForToday_def configured_def initial_def Let_def
      split: option.splits prod.splits)

lemmas generation_unfold =
  generateContentForToday_def scheduleContentForPlatform_def slotLoop.simps scheduleSlot_def
  newObject_def newPosts_def Let_def

text \<open>
  A schedule with \<^verbatim>\<open>max_posts_per_day = 0\<close> and two preferred times, on a day it is
  scheduled for and with an empty store: \<open>min(0, 2) = 0\<close>, but the run creates two posts.
\<close>

theorem zero_max_counterexample:
  "max_posts_per_day zeroMax = Some 0
   \<and> scheduledToday utcHost (getDay utc (getCurrentIST utc mondayTen)) zeroMax
   \<and> content_posts (configured zeroMax) = []
   \<and> min (0::int) (int (length (preferredTimesOf zeroMax))) = 0
   \<and> map status (newPosts (configured zeroMax)
               (generateContentForToday utcHost (Some ''u1'') mondayTen True smooth
                  (configured zeroMax))) = [''scheduled'', ''scheduled'']"
proof -
  have c: "zeroMax = weekly (Some 0) [''09:00'', ''18:00''] [JNum 1]"
    by (simp add: zeroMax_def)
  have m: "maxPostsOf zeroMax = 3" "preferredTimesOf zeroMax = [''09:00'', ''18:00'']"
    "max_posts_per_day zeroMax = Some 0"
    by (simp_all add: maxPostsOf_def preferredTimesOf_def zeroMax_def weekly_def)
  have t: "todaySchedules utcHost ''u1'' (Some 1) (configured zeroMax) = [zeroMax]"
    unfolding c by (rule today_sample)
  have f: "\<not> hasContentForToday utcHost (Some ''u1'') mondayTen ''devto'' (configured zeroMax)"
    by (rule fresh_sample)
  have i: "slotInstant utcHost zeroMax ''09:00'' mondayTen = Some 1704684600000"
    "slotInstant utcHost zeroMax ''18:00'' mondayTen = Some 1704112200000"
    unfolding c by (rule slotInstant_samples)+
  have p: "posting_schedule (configured zeroMax) = [zeroMax]"
    "content_posts (configured zeroMax) = []"
    by (simp_all add: configured_def initial_def)
  have u: "hostZone utcHost = utc"
    by (simp add: utcHost_def)
  have a: "s_user_id zeroMax = ''u1''" "is_active zeroMax" "s_platform_name zeroMax = ''devto''"
    by (simp_all add: zeroMax_def weekly_def)
  have "map status (newPosts (configured zeroMax)
               (generateContentForToday utcHost (Some ''u1'') mondayTen True smooth
                  (configured zeroMax))) = [''scheduled'', ''scheduled'']"
    by (simp add: generation_unfold u monday t f i p m a smooth_def)
  moreover have "scheduledToday utcHost (getDay utc (getCurrentIST utc mondayTen)) zeroMax"
    unfolding monday
    by (simp add: scheduledToday_def zeroMax_def weekly_def normalizeDay_def)
  ultimately show ?thesis
    using m p by simp
qed

text \<open>
  The hypotheses are met by a schedule with two slots on its day, over an empty store: two
  posts are created.
\<close>

theorem daily_generation_posts_witness:
  "int (length (filter (\<lambda>p. p_platform_name p = s_platform_name twoSlots)
          (newPosts (configured twoSlots)
             (generateContentForToday utcHost (Some ''u1'') mondayTen True smooth
                (configured twoSlots)))))
     = 2"
proof -
  have c: "twoSlots = weekly (Some 2) [''09:00'', ''18:00''] [JNum 1]"
    by (simp add: twoSlots_def)
  have m: "maxPostsOf twoSlots = 2" "preferredTimesOf twoSlots = [''09:00'', ''18:00'']"
    by (simp_all add: maxPostsOf_def preferredTimesOf_def twoSlots_def weekly_def)
  have today: "todaySchedules utcHost ''u1''
                 (getDay (hostZone utcHost) (getCurrentIST (hostZone utcHost) mondayTen))
                 (configured twoSlots) = [] @ twoSlots # []"
    using today_sample [of "Some 2" "[''09:00'', ''18:00'']"] monday
    by (simp add: c utcHost_def)
  have i: "slotInstant utcHost twoSlots ''09:00'' mondayTen = Some 1704684600000"
    "slotInstant utcHost twoSlots ''18:00'' mondayTen = Some 1704112200000"
    unfolding c by (rule slotInstant_samples)+
  have single: "\<forall>c\<in>set ([] @ []). s_platform_name c \<noteq> s_platform_name twoSlots"
    by simp
  have fresh: "\<not> hasContentForToday utcHost (Some ''u1'') (check_now (smooth (length ([]::ScheduleEntry list))))
                    (s_platform_name twoSlots) (configured twoSlots)"
    by (rule fresh_sample)
  have ok: "\<forall>i < nat (min (maxPostsOf twoSlots) (int (length (preferredTimesOf twoSlots)))).
               slotSucceeds utcHost twoSlots (slots (smooth (length ([]::ScheduleEntry list)))) i"
    by (simp add: m slotSucceeds_def smooth_def i numeral_2_eq_2 All_less_Suc)
  from daily_generation_posts [where h = utcHost and u = "''u1''" and now = mondayTen
      and s = "configured twoSlots" and before = "[]" and cfg = twoSlots and after = "[]"
      and envs = smooth, OF today single fresh ok]
  show ?thesis
    by (simp add: m)
qed


section \<open>The current local time and the host's zone\<close>





end
